theory Spec2Isabelle
  imports Main "HOL-Library.Sublist"
begin

section \<open>JavaScript values, promises and the shared heap\<close>

text \<open>
  The module \<^verbatim>\<open>src/utils/tauri-api.ts\<close> moves plain data only: strings, booleans, arrays,
  object literals and \<^verbatim>\<open>Error\<close> objects. Numbers are kept to the integers (the counters of a
  post); \<open>JError m\<close> is \<^verbatim>\<open>new Error(m)\<close>, and \<open>JTypeError\<close> is the engine's
  \<^verbatim>\<open>TypeError\<close>, whose message text depends on the engine.
\<close>

datatype js_value =
    JUndefined
  | JNull
  | JBool bool
  | JNumber int
  | JString string
  | JArray "js_value list"
  | JObject "(string \<times> js_value) list"
  | JError string
  | JTypeError

text \<open>A promise is observed through the way it settles; \<open>Pending\<close> is one that never does.\<close>

datatype promise = Resolved js_value | Rejected js_value | Pending

text \<open>
  A call either throws synchronously (\<open>Inl\<close> the thrown value) or returns a promise
  (\<open>Inr\<close>).
\<close>

type_synonym call_result = "js_value + promise"

text \<open>
  The argument mapping \<^verbatim>\<open>args?: Record<string, unknown>\<close> is an object that the caller
  owns and passes by reference: an address into a heap of records, or \<open>None\<close> when the
  argument is left out (\<^verbatim>\<open>undefined\<close>).
\<close>

type_synonym addr = nat
type_synonym args_record = "(string \<times> js_value) list"
type_synonym heap = "addr \<rightharpoonup> args_record"

section \<open>The execution environment\<close>

text \<open>
  The member \<^verbatim>\<open>invoke<T>(command, args): Promise<T>\<close> of the host bridge is foreign code.
  It receives the command name and the reference it was given, may read and write the heap,
  and keeps a state of its own (type \<open>'h\<close>).
\<close>

type_synonym 'h bridge =
  "string \<Rightarrow> addr option \<Rightarrow> heap \<times> 'h \<Rightarrow> call_result \<times> (heap \<times> 'h)"

text \<open>
  What the global \<^verbatim>\<open>window.__TAURI_IPC__\<close> may hold at run time: an object whose
  \<^verbatim>\<open>invoke\<close> member is a function (\<open>Bridge\<close>), or any value that has no callable
  \<^verbatim>\<open>invoke\<close> member (\<open>Plain\<close>). The declared type of the binding,
  \<^verbatim>\<open>__TAURI_IPC__?: { invoke<T>(...): Promise<T> }\<close>, admits the first kind only.
\<close>

datatype 'h ipc_binding = Plain js_value | Bridge "'h bridge"

text \<open>
  \<^verbatim>\<open>interface Window { __TAURI_IPC__?: ... }\<close>: the property is optional, \<open>None\<close> is a
  window object without it. (An Isabelle name cannot start with an underscore.)
\<close>

record 'h window_obj =
  TAURI_IPC :: "'h ipc_binding option"

text \<open>
  The world a call runs in: the global \<^verbatim>\<open>window\<close> (\<open>None\<close> where
  \<^verbatim>\<open>typeof window === 'undefined'\<close>), the lines written to the console so far, the heap of
  argument records, and the state of the host behind the bridge.
\<close>

record 'h world =
  window :: "'h window_obj option"
  console :: "(string \<times> addr option) list"
  heap :: heap
  host :: 'h

text \<open>Reading \<^verbatim>\<open>window.__TAURI_IPC__\<close>: a property that is not there reads as undefined.\<close>

definition get_TAURI_IPC :: "'h window_obj \<Rightarrow> 'h ipc_binding" where
  "get_TAURI_IPC win = (case TAURI_IPC win of None \<Rightarrow> Plain JUndefined | Some v \<Rightarrow> v)"

text \<open>\<^verbatim>\<open>v !== undefined\<close> and the truth value of \<open>v\<close> in a condition.\<close>

fun is_undefined :: "'h ipc_binding \<Rightarrow> bool" where
  "is_undefined (Plain JUndefined) = True"
| "is_undefined _ = False"

fun truthy_value :: "js_value \<Rightarrow> bool" where
  "truthy_value JUndefined = False"
| "truthy_value JNull = False"
| "truthy_value (JBool b) = b"
| "truthy_value (JNumber n) = (n \<noteq> 0)"
| "truthy_value (JString s) = (s \<noteq> [])"
| "truthy_value _ = True"

fun truthy :: "'h ipc_binding \<Rightarrow> bool" where
  "truthy (Plain v) = truthy_value v"
| "truthy (Bridge b) = True"

section \<open>The Mock Responder\<close>

text \<open>\<^verbatim>\<open>console.warn(message, args)\<close> appends one line and touches nothing else.\<close>

definition console_warn :: "string \<Rightarrow> addr option \<Rightarrow> 'h world \<Rightarrow> 'h world" where
  "console_warn message args w = w\<lparr>console := console w @ [(message, args)]\<rparr>"

text \<open>
  \<^verbatim>\<open>mockInvoke\<close>, branch by branch in the order of the source: the warning first, then the
  chain of comparisons, then the rejection.
\<close>

definition mockInvoke :: "string \<Rightarrow> addr option \<Rightarrow> 'h world \<Rightarrow> call_result \<times> 'h world" where
  "mockInvoke command args w =
     (let w' = console_warn (''Mock invoke called for command: '' @ command) args w in
      if command = ''login'' then (Inr (Resolved (JString ''mock-session-data'')), w')
      else if command = ''get_timeline'' then (Inr (Resolved (JArray [])), w')
      else if command = ''create_post'' then (Inr (Resolved (JString ''mock-post-uri'')), w')
      else if command = ''like_post'' then (Inr (Resolved (JBool True)), w')
      else if command = ''get_post_detail'' then (Inr (Resolved (JObject [])), w')
      else if command = ''get_post_replies'' then (Inr (Resolved (JArray [])), w')
      else (Inr (Rejected (JError (''Unimplemented mock for: '' @ command))), w'))"

section \<open>The Dispatch Bridge\<close>

text \<open>
  \<^verbatim>\<open>isTauri\<close>:
  \<^verbatim>\<open>typeof window !== 'undefined' && window.__TAURI_IPC__ !== undefined\<close>.
\<close>

definition isTauri :: "'h world \<Rightarrow> bool" where
  "isTauri w = (case window w of None \<Rightarrow> False
                | Some win \<Rightarrow> \<not> is_undefined (get_TAURI_IPC win))"

text \<open>
  The member call \<^verbatim>\<open>window.__TAURI_IPC__.invoke(command, args)\<close>. On a bridge object it
  runs the bridge once on the heap and the host state and hands back what the bridge
  returned. On any other value that passed the guard the member is missing or is not a
  function, and the call throws a \<^verbatim>\<open>TypeError\<close>.
\<close>

fun call_invoke :: "'h ipc_binding \<Rightarrow> string \<Rightarrow> addr option \<Rightarrow> 'h world \<Rightarrow> call_result \<times> 'h world" where
  "call_invoke (Bridge b) command args w =
     (case b command args (heap w, host w) of
        (r, hp, hs) \<Rightarrow> (r, w\<lparr>heap := hp, host := hs\<rparr>))"
| "call_invoke (Plain v) command args w = (Inl JTypeError, w)"

text \<open>
  \<^verbatim>\<open>invoke\<close>:
  \<^verbatim>\<open>if (isTauri() && window.__TAURI_IPC__) return window.__TAURI_IPC__.invoke(command, args);\<close>
  \<^verbatim>\<open>return mockInvoke(command, args);\<close>
  The second conjunct is read only where \<^verbatim>\<open>isTauri()\<close> held, so the window exists there.
\<close>

definition invoke :: "string \<Rightarrow> addr option \<Rightarrow> 'h world \<Rightarrow> call_result \<times> 'h world" where
  "invoke command args w =
     (case window w of
        None \<Rightarrow> mockInvoke command args w
      | Some win \<Rightarrow>
          if isTauri w \<and> truthy (get_TAURI_IPC win)
          then call_invoke (get_TAURI_IPC win) command args w
          else mockInvoke command args w)"

section \<open>Vocabulary of the claims\<close>

text \<open>
  The value that the binding \<^verbatim>\<open>window.__TAURI_IPC__\<close> holds, when the binding exists at
  all: \<open>None\<close> where there is no window object or the window lacks the property.
\<close>

definition binding_value :: "'h world \<Rightarrow> 'h ipc_binding option" where
  "binding_value w = (case window w of None \<Rightarrow> None | Some win \<Rightarrow> TAURI_IPC win)"

text \<open>The binding is present when the window object exists and has the property.\<close>

definition binding_present :: "'h world \<Rightarrow> bool" where
  "binding_present w = (case binding_value w of None \<Rightarrow> False | Some v \<Rightarrow> True)"

text \<open>Mock mode is an environment with no live bridge capability: the binding is absent.\<close>

definition mock_mode :: "'h world \<Rightarrow> bool" where
  "mock_mode w = Option.is_none (binding_value w)"

text \<open>The command names that the comparison chain of \<^verbatim>\<open>mockInvoke\<close> recognises.\<close>

definition mock_commands :: "string list" where
  "mock_commands = [''login'', ''get_timeline'', ''create_post'', ''like_post'',
                    ''get_post_detail'', ''get_post_replies'']"

text \<open>A call rejects when it returns a promise that settles with an error.\<close>

fun rejects :: "call_result \<Rightarrow> bool" where
  "rejects (Inr (Rejected e)) = True"
| "rejects _ = False"

fun resolves :: "call_result \<Rightarrow> bool" where
  "resolves (Inr (Resolved v)) = True"
| "resolves _ = False"

text \<open>The \<^verbatim>\<open>message\<close> of the error a call rejected with.\<close>

fun rejection_message :: "call_result \<Rightarrow> string option" where
  "rejection_message (Inr (Rejected (JError m))) = Some m"
| "rejection_message _ = None"

text \<open>
  The surroundings may change the binding between two calls: assigning a bridge object to
  \<^verbatim>\<open>window.__TAURI_IPC__\<close> (on a fresh window object where there was none), and
  \<^verbatim>\<open>delete window.__TAURI_IPC__\<close>.
\<close>

definition install_bridge :: "'h bridge \<Rightarrow> 'h world \<Rightarrow> 'h world" where
  "install_bridge b w =
     w\<lparr>window := Some (case window w of
                        None \<Rightarrow> \<lparr>TAURI_IPC = Some (Bridge b)\<rparr>
                      | Some win \<Rightarrow> win\<lparr>TAURI_IPC := Some (Bridge b)\<rparr>)\<rparr>"

definition remove_bridge :: "'h world \<Rightarrow> 'h world" where
  "remove_bridge w = w\<lparr>window := map_option (\<lambda>win. win\<lparr>TAURI_IPC := None\<rparr>) (window w)\<rparr>"

text \<open>A caller that issues a list of calls one after the other and drops the results.\<close>

fun run_calls :: "(string \<times> addr option) list \<Rightarrow> 'h world \<Rightarrow> 'h world" where
  "run_calls [] w = w"
| "run_calls ((command, args) # rest) w = run_calls rest (snd (invoke command args w))"

subsection \<open>The record shapes of the view layer\<close>

text \<open>
  An object value lists its own keys, each of them once. The interfaces below ask for
  properties by name, and none of the names is a member of \<^verbatim>\<open>Object.prototype\<close>, so an
  object literal has such a property exactly when it has it as an own key. A value that is
  not an object has none of them.
\<close>

definition has_string :: "(string \<times> js_value) list \<Rightarrow> string \<Rightarrow> bool" where
  "has_string fs k = (case map_of fs k of Some (JString s) \<Rightarrow> True | _ \<Rightarrow> False)"

definition has_number :: "(string \<times> js_value) list \<Rightarrow> string \<Rightarrow> bool" where
  "has_number fs k = (case map_of fs k of Some (JNumber n) \<Rightarrow> True | _ \<Rightarrow> False)"

text \<open>An optional property \<^verbatim>\<open>k?: string\<close>: left out, undefined, or a string.\<close>

definition optional_string :: "(string \<times> js_value) list \<Rightarrow> string \<Rightarrow> bool" where
  "optional_string fs k =
     (case map_of fs k of None \<Rightarrow> True | Some JUndefined \<Rightarrow> True
      | Some (JString s) \<Rightarrow> True | _ \<Rightarrow> False)"

fun is_string :: "js_value \<Rightarrow> bool" where
  "is_string (JString s) = True"
| "is_string _ = False"

text \<open>An optional property \<^verbatim>\<open>k?: string[]\<close>.\<close>

definition optional_string_array :: "(string \<times> js_value) list \<Rightarrow> string \<Rightarrow> bool" where
  "optional_string_array fs k =
     (case map_of fs k of None \<Rightarrow> True | Some JUndefined \<Rightarrow> True
      | Some (JArray vs) \<Rightarrow> list_all is_string vs | _ \<Rightarrow> False)"

text \<open>
  \<^verbatim>\<open>interface Author { did: string; handle: string; display_name: string; avatar?: string }\<close>
\<close>

fun is_Author :: "js_value \<Rightarrow> bool" where
  "is_Author (JObject fs) =
     (has_string fs ''did'' \<and> has_string fs ''handle'' \<and> has_string fs ''display_name''
      \<and> optional_string fs ''avatar'')"
| "is_Author _ = False"

text \<open>
  \<^verbatim>\<open>interface PostData { id: string; author: Author; text: string; created_at: string;\<close>
  \<^verbatim>\<open>  images?: string[]; likes_count: number; reposts_count: number; replies_count: number }\<close>
\<close>

fun is_PostData :: "js_value \<Rightarrow> bool" where
  "is_PostData (JObject fs) =
     (has_string fs ''id''
      \<and> (case map_of fs ''author'' of None \<Rightarrow> False | Some a \<Rightarrow> is_Author a)
      \<and> has_string fs ''text'' \<and> has_string fs ''created_at''
      \<and> optional_string_array fs ''images''
      \<and> has_number fs ''likes_count'' \<and> has_number fs ''reposts_count''
      \<and> has_number fs ''replies_count'')"
| "is_PostData _ = False"

text \<open>
  The Post of the specification's data model asks, beyond the interface, that the three
  counters are non-negative integers.
\<close>

definition has_counter :: "(string \<times> js_value) list \<Rightarrow> string \<Rightarrow> bool" where
  "has_counter fs k = (case map_of fs k of Some (JNumber n) \<Rightarrow> 0 \<le> n | _ \<Rightarrow> False)"

fun Post_shape_spec :: "js_value \<Rightarrow> bool" where
  "Post_shape_spec (JObject fs) =
     (is_PostData (JObject fs) \<and> has_counter fs ''likes_count''
      \<and> has_counter fs ''reposts_count'' \<and> has_counter fs ''replies_count'')"
| "Post_shape_spec _ = False"

subsection \<open>Sample environments\<close>

text \<open>
  The argument record of the timeline fetch in \<^verbatim>\<open>App.tsx\<close> before login, and two login
  records that differ in every credential.
\<close>

definition timeline_args :: args_record where
  "timeline_args = [(''service'', JString ''https://bsky.social''), (''session'', JNull)]"

definition login_args_alice :: args_record where
  "login_args_alice = [(''service'', JString ''https://bsky.social''),
                       (''identifier'', JString ''alice.bsky.social''),
                       (''password'', JString ''correct horse'')]"

definition login_args_bob :: args_record where
  "login_args_bob = [(''service'', JString ''https://example.org''),
                     (''identifier'', JString ''bob.example.org''),
                     (''password'', JString [])]"

text \<open>
  The argument record of the detail fetch in \<^verbatim>\<open>PostDetail.tsx\<close>, before login and for
  the post \<open>42\<close>.
\<close>

definition post_detail_args :: args_record where
  "post_detail_args = [(''service'', JString ''https://bsky.social''), (''session'', JNull),
                       (''post_uri'', JString ''42'')]"

text \<open>A browser tab without the host runtime: a window, no binding.\<close>

definition dev_world :: "'h \<Rightarrow> 'h world" where
  "dev_world h = \<lparr>window = Some \<lparr>TAURI_IPC = None\<rparr>, console = [],
                  heap = [0 \<mapsto> timeline_args, 1 \<mapsto> login_args_alice,
                          2 \<mapsto> post_detail_args],
                  host = h\<rparr>"

text \<open>No window object at all, as under a server-side renderer.\<close>

definition headless_world :: "'h \<Rightarrow> 'h world" where
  "headless_world h = \<lparr>window = None, console = [],
                       heap = [0 \<mapsto> timeline_args, 1 \<mapsto> login_args_bob], host = h\<rparr>"

text \<open>A window whose binding exists and holds \<^verbatim>\<open>null\<close>.\<close>

definition null_binding_world :: "unit world" where
  "null_binding_world = \<lparr>window = Some \<lparr>TAURI_IPC = Some (Plain JNull)\<rparr>, console = [],
                         heap = [0 \<mapsto> timeline_args], host = ()\<rparr>"

text \<open>
  A substitute bridge that echoes its inputs: it resolves to the pair of the command name and
  the record found behind the reference, and notes each call it receives in the host state.
  It rejects the command \<open>fail\<close> with an error of its own.
\<close>

type_synonym echo_host = "(string \<times> addr option) list"

definition echo_bridge :: "echo_host bridge" where
  "echo_bridge command args s =
     (case s of (hp, received) \<Rightarrow>
        (if command = ''fail'' then Inr (Rejected (JError ''host failure''))
         else Inr (Resolved (JArray [JString command,
                 (case args of None \<Rightarrow> JUndefined
                  | Some p \<Rightarrow> (case hp p of None \<Rightarrow> JUndefined | Some r \<Rightarrow> JObject r))])),
         (hp, received @ [(command, args)])))"

definition tauri_world :: "echo_host world" where
  "tauri_world = \<lparr>window = Some \<lparr>TAURI_IPC = Some (Bridge echo_bridge)\<rparr>, console = [],
                  heap = [0 \<mapsto> timeline_args], host = []\<rparr>"

text \<open>The browser tab without the host runtime, with a host state the echo bridge can use.\<close>

definition echo_dev_world :: "echo_host world" where
  "echo_dev_world = dev_world []"

text \<open>
  A bridge that writes to the record it is handed: it adds the key \<open>seen\<close> in front of the
  record behind the reference and resolves to \<^verbatim>\<open>null\<close>.
\<close>

definition writing_bridge :: "unit bridge" where
  "writing_bridge command args s =
     (case s of (hp, hs) \<Rightarrow>
        (Inr (Resolved JNull),
         (case args of None \<Rightarrow> hp
          | Some p \<Rightarrow> (case hp p of None \<Rightarrow> hp
                       | Some r \<Rightarrow> hp(p \<mapsto> (''seen'', JBool True) # r))),
         hs))"

definition writing_world :: "unit world" where
  "writing_world = \<lparr>window = Some \<lparr>TAURI_IPC = Some (Bridge writing_bridge)\<rparr>, console = [],
                    heap = [0 \<mapsto> timeline_args], host = ()\<rparr>"

section \<open>Basic facts\<close>

subsection \<open>The Mock Responder\<close>

lemma mockInvoke_world:
  "snd (mockInvoke command args w) =
     console_warn (''Mock invoke called for command: '' @ command) args w"
  by (simp add: mockInvoke_def Let_def)

lemma mockInvoke_result_login:
  "fst (mockInvoke ''login'' args w) = Inr (Resolved (JString ''mock-session-data''))"
  by (simp add: mockInvoke_def Let_def)

lemma mockInvoke_result_get_timeline:
  "fst (mockInvoke ''get_timeline'' args w) = Inr (Resolved (JArray []))"
  by (simp add: mockInvoke_def Let_def)

lemma mockInvoke_result_create_post:
  "fst (mockInvoke ''create_post'' args w) = Inr (Resolved (JString ''mock-post-uri''))"
  by (simp add: mockInvoke_def Let_def)

lemma mockInvoke_result_like_post:
  "fst (mockInvoke ''like_post'' args w) = Inr (Resolved (JBool True))"
  by (simp add: mockInvoke_def Let_def)

lemma mockInvoke_result_get_post_detail:
  "fst (mockInvoke ''get_post_detail'' args w) = Inr (Resolved (JObject []))"
  by (simp add: mockInvoke_def Let_def)

lemma mockInvoke_result_get_post_replies:
  "fst (mockInvoke ''get_post_replies'' args w) = Inr (Resolved (JArray []))"
  by (simp add: mockInvoke_def Let_def)

lemma mockInvoke_result_other:
  "command \<notin> set mock_commands \<Longrightarrow>
   fst (mockInvoke command args w) = Inr (Rejected (JError (''Unimplemented mock for: '' @ command)))"
  by (simp add: mockInvoke_def Let_def mock_commands_def)

lemma mockInvoke_result_indep:
  "fst (mockInvoke command args w) = fst (mockInvoke command args' w')"
  by (simp add: mockInvoke_def Let_def)

lemma mockInvoke_rejects_iff:
  "rejects (fst (mockInvoke command args w)) = (command \<notin> set mock_commands)"
  by (simp add: mockInvoke_def Let_def mock_commands_def)

lemma mockInvoke_resolves_iff:
  "resolves (fst (mockInvoke command args w)) = (command \<in> set mock_commands)"
  by (simp add: mockInvoke_def Let_def mock_commands_def)

lemma window_mockInvoke: "window (snd (mockInvoke command args w)) = window w"
  by (simp add: mockInvoke_world console_warn_def)

lemma heap_mockInvoke: "heap (snd (mockInvoke command args w)) = heap w"
  by (simp add: mockInvoke_world console_warn_def)

lemma console_mockInvoke:
  "console (snd (mockInvoke command args w)) =
     console w @ [(''Mock invoke called for command: '' @ command, args)]"
  by (simp add: mockInvoke_world console_warn_def)

subsection \<open>The member call on the binding\<close>

lemma window_call_invoke: "window (snd (call_invoke v command args w)) = window w"
  by (cases v) (auto split: prod.splits)

lemma console_call_invoke: "console (snd (call_invoke v command args w)) = console w"
  by (cases v) (auto split: prod.splits)

lemma fst_call_invoke_bridge:
  "fst (call_invoke (Bridge b) command args w) = fst (b command args (heap w, host w))"
  by (simp split: prod.splits)

lemma heap_call_invoke_bridge:
  "heap (snd (call_invoke (Bridge b) command args w))
     = fst (snd (b command args (heap w, host w)))"
  by (simp split: prod.splits)

lemma host_call_invoke_bridge:
  "host (snd (call_invoke (Bridge b) command args w))
     = snd (snd (b command args (heap w, host w)))"
  by (simp split: prod.splits)

text \<open>The two delegates never agree on a world: only the Mock Responder writes a line.\<close>

lemma call_invoke_neq_mockInvoke:
  "call_invoke v command args w \<noteq> mockInvoke command' args' w"
proof
  assume "call_invoke v command args w = mockInvoke command' args' w"
  then have "console (snd (call_invoke v command args w))
             = console (snd (mockInvoke command' args' w))"
    by simp
  then show False
    by (simp add: console_call_invoke console_mockInvoke)
qed

subsection \<open>The dispatch, by what the binding holds\<close>

lemma invoke_mock_mode: "mock_mode w \<Longrightarrow> invoke command args w = mockInvoke command args w"
  by (auto simp: invoke_def mock_mode_def binding_value_def isTauri_def get_TAURI_IPC_def
           Option.is_none_def split: option.splits)

lemma invoke_bridge:
  "binding_value w = Some (Bridge b) \<Longrightarrow>
   invoke command args w = call_invoke (Bridge b) command args w"
  by (auto simp: invoke_def binding_value_def isTauri_def get_TAURI_IPC_def
           split: option.splits)

lemma invoke_plain:
  "binding_value w = Some (Plain v) \<Longrightarrow>
   invoke command args w =
     (if truthy_value v then (Inl JTypeError, w) else mockInvoke command args w)"
  by (cases v)
     (auto simp: invoke_def binding_value_def isTauri_def get_TAURI_IPC_def
           split: option.splits)

lemma window_invoke: "window (snd (invoke command args w)) = window w"
  by (simp add: invoke_def window_mockInvoke window_call_invoke split: option.splits)

lemma binding_value_invoke: "binding_value (snd (invoke command args w)) = binding_value w"
  by (simp add: binding_value_def window_invoke)

lemma mock_mode_invoke: "mock_mode (snd (invoke command args w)) = mock_mode w"
  by (simp add: mock_mode_def binding_value_invoke)

lemma mock_mode_run_calls: "mock_mode (run_calls calls w) = mock_mode w"
  by (induction calls w rule: run_calls.induct) (simp_all add: mock_mode_invoke)

subsection \<open>Changes of the binding\<close>

lemma binding_value_install: "binding_value (install_bridge b w) = Some (Bridge b)"
  by (simp add: binding_value_def install_bridge_def split: option.splits)

lemma heap_install_bridge: "heap (install_bridge b w) = heap w"
  by (simp add: install_bridge_def)

lemma mock_mode_remove: "mock_mode (remove_bridge w)"
  by (simp add: mock_mode_def binding_value_def remove_bridge_def Option.is_none_def
        split: option.splits)

subsection \<open>The sample environments\<close>

lemma dev_world_mock_mode: "mock_mode (dev_world h)"
  by (simp add: mock_mode_def binding_value_def dev_world_def Option.is_none_def)

lemma headless_world_mock_mode: "mock_mode (headless_world h)"
  by (simp add: mock_mode_def binding_value_def headless_world_def Option.is_none_def)

lemma echo_dev_world_mock_mode: "mock_mode echo_dev_world"
  by (simp add: echo_dev_world_def dev_world_mock_mode)

lemma tauri_binding: "binding_value tauri_world = Some (Bridge echo_bridge)"
  by (simp add: binding_value_def tauri_world_def)

lemma null_binding: "binding_value null_binding_world = Some (Plain JNull)"
  by (simp add: binding_value_def null_binding_world_def)

lemma writing_binding: "binding_value writing_world = Some (Bridge writing_bridge)"
  by (simp add: binding_value_def writing_world_def)

lemma echo_bridge_result:
  "hp p = Some r \<Longrightarrow> command \<noteq> ''fail'' \<Longrightarrow>
   fst (echo_bridge command (Some p) (hp, hs))
     = Inr (Resolved (JArray [JString command, JObject r]))"
  by (simp add: echo_bridge_def)

lemma echo_bridge_fail:
  "fst (echo_bridge ''fail'' args (hp, hs)) = Inr (Rejected (JError ''host failure''))"
  by (simp add: echo_bridge_def)

lemma echo_bridge_state:
  "snd (echo_bridge command args (hp, hs)) = (hp, hs @ [(command, args)])"
  by (simp add: echo_bridge_def)

lemma mock_mode_binding: "mock_mode w \<Longrightarrow> binding_value w = None"
  by (simp add: mock_mode_def Option.is_none_def)

section \<open>Claims\<close>

subsection \<open>C1: the canned values\<close>

text \<open>
  C1. Every command of the Mock Responder's table, invoked in mock mode, resolves to its
  canned value: \<open>login\<close> to the string \<open>mock-session-data\<close>, \<open>get_timeline\<close> to the empty
  array, \<open>create_post\<close> to the string \<open>mock-post-uri\<close>, \<open>like_post\<close> to \<open>true\<close>,
  \<open>get_post_detail\<close> to the post-detail value of the source (the empty object) and
  \<open>get_post_replies\<close> to the empty array. This holds for every argument reference, the
  missing one included, and whatever the heap, the console and the host hold.
\<close>

theorem mock_canned_values:
  assumes "mock_mode w"
  shows "fst (invoke ''login'' args w) = Inr (Resolved (JString ''mock-session-data''))
       \<and> fst (invoke ''get_timeline'' args w) = Inr (Resolved (JArray []))
       \<and> fst (invoke ''create_post'' args w) = Inr (Resolved (JString ''mock-post-uri''))
       \<and> fst (invoke ''like_post'' args w) = Inr (Resolved (JBool True))
       \<and> fst (invoke ''get_post_detail'' args w) = Inr (Resolved (JObject []))
       \<and> fst (invoke ''get_post_replies'' args w) = Inr (Resolved (JArray []))"
  using assms
  by (simp only: invoke_mock_mode mockInvoke_result_login mockInvoke_result_get_timeline
        mockInvoke_result_create_post mockInvoke_result_like_post
        mockInvoke_result_get_post_detail mockInvoke_result_get_post_replies simp_thms)

theorem mock_canned_values_witness:
  "mock_mode (dev_world ())
   \<and> fst (invoke ''get_timeline'' (Some 0) (dev_world ())) = Inr (Resolved (JArray []))
   \<and> fst (invoke ''like_post'' None (dev_world ())) = Inr (Resolved (JBool True))
   \<and> fst (invoke ''get_post_detail'' (Some 7) (dev_world ())) = Inr (Resolved (JObject []))"
proof -
  have h: "mock_mode (dev_world ())"
    by (rule dev_world_mock_mode)
  show ?thesis
    using h mock_canned_values [OF h, of "Some 0"] mock_canned_values [OF h, of None]
      mock_canned_values [OF h, of "Some 7"]
    by simp
qed

subsection \<open>C2: unknown commands are rejected, and only they\<close>

text \<open>
  C2. In mock mode a call rejects if and only if its command name is not one of the six
  recognised names; every other call resolves. The error of the rejection carries the
  message \<open>Unimplemented mock for: \<close> followed by the command name, so the name occurs in
  the message. In particular \<open>export_data\<close> rejects with a message that contains
  \<open>export_data\<close>.
\<close>

theorem mock_rejects_exactly_unknown:
  assumes "mock_mode w"
  shows "(rejects (fst (invoke command args w)) \<longleftrightarrow> command \<notin> set mock_commands)
       \<and> (resolves (fst (invoke command args w)) \<longleftrightarrow> command \<in> set mock_commands)
       \<and> (command \<notin> set mock_commands \<longrightarrow>
            rejection_message (fst (invoke command args w))
              = Some (''Unimplemented mock for: '' @ command)
            \<and> sublist command (''Unimplemented mock for: '' @ command))
       \<and> rejection_message (fst (invoke ''export_data'' args w))
              = Some ''Unimplemented mock for: export_data''
       \<and> sublist ''export_data'' ''Unimplemented mock for: export_data''"
proof -
  have unknown: "''export_data'' \<notin> set mock_commands"
    by (simp add: mock_commands_def)
  have sub: "sublist c (''Unimplemented mock for: '' @ c)" for c :: string
    using sublist_appendI [of c "''Unimplemented mock for: ''" "[]"] by simp
  have "sublist ''export_data'' (''Unimplemented mock for: '' @ ''export_data'')"
    by (rule sub)
  then have sub': "sublist ''export_data'' ''Unimplemented mock for: export_data''"
    by simp
  show ?thesis
    using assms unknown sub sub'
    by (simp add: invoke_mock_mode mockInvoke_rejects_iff mockInvoke_resolves_iff
          mockInvoke_result_other)
qed

theorem mock_rejects_exactly_unknown_witness:
  "mock_mode (dev_world ())
   \<and> rejects (fst (invoke ''export_data'' (Some 0) (dev_world ())))
   \<and> rejection_message (fst (invoke ''export_data'' (Some 0) (dev_world ())))
       = Some ''Unimplemented mock for: export_data''
   \<and> \<not> rejects (fst (invoke ''like_post'' (Some 0) (dev_world ())))
   \<and> resolves (fst (invoke ''like_post'' (Some 0) (dev_world ())))"
proof -
  have h: "mock_mode (dev_world ())"
    by (rule dev_world_mock_mode)
  show ?thesis
    using h mock_rejects_exactly_unknown [OF h, of "''export_data''" "Some 0"]
      mock_rejects_exactly_unknown [OF h, of "''like_post''" "Some 0"]
    by (simp add: mock_commands_def)
qed

subsection \<open>C3: the live path forwards and returns unchanged\<close>

text \<open>
  C3. When the binding holds a bridge object, a call hands the command name and the argument
  reference, as given, to the bridge's \<open>invoke\<close> member together with the heap and host
  state of the moment, and returns what the bridge returned: its promise, resolved, rejected
  or pending, or the value it threw. The bridge runs once (the host state after the call is
  the state after one run of the bridge); nothing is written to the console and the window
  is left as it was.
\<close>

theorem live_bridge_forwarding:
  assumes "binding_value w = Some (Bridge b)"
  shows "invoke command args w =
           (case b command args (heap w, host w) of
              (r, hp, hs) \<Rightarrow> (r, w\<lparr>heap := hp, host := hs\<rparr>))
       \<and> fst (invoke command args w) = fst (b command args (heap w, host w))
       \<and> host (snd (invoke command args w)) = snd (snd (b command args (heap w, host w)))
       \<and> console (snd (invoke command args w)) = console w
       \<and> window (snd (invoke command args w)) = window w"
  using assms by (simp add: invoke_bridge split: prod.splits)

theorem live_bridge_forwarding_witness:
  "binding_value tauri_world = Some (Bridge echo_bridge)
   \<and> fst (invoke ''get_timeline'' (Some 0) tauri_world)
       = Inr (Resolved (JArray [JString ''get_timeline'', JObject timeline_args]))
   \<and> fst (invoke ''fail'' None tauri_world) = Inr (Rejected (JError ''host failure''))
   \<and> host (snd (invoke ''get_timeline'' (Some 0) tauri_world)) = [(''get_timeline'', Some 0)]
   \<and> console (snd (invoke ''get_timeline'' (Some 0) tauri_world)) = []"
proof -
  have h: "binding_value tauri_world = Some (Bridge echo_bridge)"
    by (rule tauri_binding)
  show ?thesis
    using h live_bridge_forwarding [OF h, of "''get_timeline''" "Some 0"]
      live_bridge_forwarding [OF h, of "''fail''" None]
    by (simp add: tauri_world_def echo_bridge_def)
qed

subsection \<open>C4: what decides the route\<close>

text \<open>
  C4, as stated, fails: a binding that is present decides for the live bridge only if its
  value is truthy. With \<^verbatim>\<open>window.__TAURI_IPC__ = null\<close> the binding is present,
  \<^verbatim>\<open>isTauri()\<close> holds, and the second conjunct of the guard sends the call to the Mock
  Responder: \<open>like_post\<close> resolves to \<open>true\<close> and the warning is written.
\<close>

theorem binding_null_counterexample:
  "binding_present null_binding_world
   \<and> isTauri null_binding_world
   \<and> invoke ''like_post'' (Some 0) null_binding_world
       = mockInvoke ''like_post'' (Some 0) null_binding_world
   \<and> fst (invoke ''like_post'' (Some 0) null_binding_world) = Inr (Resolved (JBool True))
   \<and> console (snd (invoke ''like_post'' (Some 0) null_binding_world))
       = [(''Mock invoke called for command: like_post'', Some 0)]"
  by (simp add: null_binding_world_def binding_present_def binding_value_def invoke_def
        isTauri_def get_TAURI_IPC_def mockInvoke_def console_warn_def Let_def)

text \<open>
  C4, amended. A call goes to the Mock Responder exactly when there is no window object, the
  binding is absent, or the binding holds a falsy value (undefined, null, false, 0 or the
  empty string); otherwise it goes to the member call on the binding. When the binding is
  absent the call is the Mock Responder's; when it holds a bridge object, the only kind of
  value its declared type admits, presence alone decides and the call is the bridge's; when
  it holds any other truthy value the member call throws a type error and the Mock
  Responder is not consulted.
\<close>

theorem routing_by_truthy_binding:
  "(invoke command args w = mockInvoke command args w
      \<longleftrightarrow> (case binding_value w of None \<Rightarrow> True | Some v \<Rightarrow> \<not> truthy v))
   \<and> (case binding_value w of
        None \<Rightarrow> invoke command args w = mockInvoke command args w
      | Some (Bridge b) \<Rightarrow> invoke command args w = call_invoke (Bridge b) command args w
      | Some (Plain v) \<Rightarrow>
          invoke command args w =
            (if truthy_value v then (Inl JTypeError, w) else mockInvoke command args w))"
proof (cases "binding_value w")
  case None
  then have "mock_mode w"
    by (simp add: mock_mode_def)
  with None show ?thesis
    by (simp add: invoke_mock_mode)
next
  case (Some v)
  show ?thesis
  proof (cases v)
    case (Plain x)
    with Some show ?thesis
      using call_invoke_neq_mockInvoke [of "Plain x" command args w command args]
      by (simp add: invoke_plain)
  next
    case (Bridge b)
    with Some show ?thesis
      using call_invoke_neq_mockInvoke [of "Bridge b" command args w command args]
      by (simp add: invoke_bridge)
  qed
qed

theorem routing_by_truthy_binding_witness:
  "invoke ''like_post'' None tauri_world
     = call_invoke (Bridge echo_bridge) ''like_post'' None tauri_world
   \<and> invoke ''like_post'' None tauri_world \<noteq> mockInvoke ''like_post'' None tauri_world
   \<and> invoke ''like_post'' None null_binding_world
       = mockInvoke ''like_post'' None null_binding_world
   \<and> invoke ''like_post'' None (dev_world ()) = mockInvoke ''like_post'' None (dev_world ())
   \<and> invoke ''like_post'' None (headless_world ())
       = mockInvoke ''like_post'' None (headless_world ())"
proof -
  have b3: "binding_value (dev_world ()) = None"
    by (simp add: binding_value_def dev_world_def)
  have b4: "binding_value (headless_world ()) = None"
    by (simp add: binding_value_def headless_world_def)
  show ?thesis
    using routing_by_truthy_binding [of "''like_post''" None tauri_world]
      routing_by_truthy_binding [of "''like_post''" None null_binding_world]
      routing_by_truthy_binding [of "''like_post''" None "dev_world ()"]
      routing_by_truthy_binding [of "''like_post''" None "headless_world ()"]
    by (auto simp add: tauri_binding null_binding b3 b4 simp del: call_invoke.simps)
qed

subsection \<open>C5: detection on every call\<close>

text \<open>
  C5. The route of a call depends on the binding as it is when the call is made and on
  nothing remembered from earlier calls. If a call ran in mock mode and a bridge is assigned
  to the binding afterwards, the next call goes to that bridge; if a call went to a bridge
  and the binding is deleted afterwards, the next call goes to the Mock Responder. No reset
  comes between. A call leaves the window, and so the binding, as it found it.
\<close>

theorem detection_evaluated_per_call:
  "(mock_mode w \<longrightarrow>
      invoke c1 a1 w = mockInvoke c1 a1 w
      \<and> (let w' = install_bridge b (snd (invoke c1 a1 w))
         in invoke c2 a2 w' = call_invoke (Bridge b) c2 a2 w'))
   \<and> (binding_value w = Some (Bridge b) \<longrightarrow>
      invoke c1 a1 w = call_invoke (Bridge b) c1 a1 w
      \<and> (let w' = remove_bridge (snd (invoke c1 a1 w))
         in invoke c2 a2 w' = mockInvoke c2 a2 w'))
   \<and> window (snd (invoke c1 a1 w)) = window w"
  by (simp add: Let_def invoke_mock_mode invoke_bridge binding_value_install mock_mode_remove
        window_invoke del: call_invoke.simps)

theorem detection_evaluated_per_call_witness:
  "mock_mode echo_dev_world
   \<and> fst (invoke ''like_post'' (Some 0) echo_dev_world) = Inr (Resolved (JBool True))
   \<and> fst (invoke ''like_post'' (Some 0)
            (install_bridge echo_bridge (snd (invoke ''like_post'' (Some 0) echo_dev_world))))
       = Inr (Resolved (JArray [JString ''like_post'', JObject timeline_args]))
   \<and> binding_value tauri_world = Some (Bridge echo_bridge)
   \<and> fst (invoke ''like_post'' (Some 0) tauri_world)
       = Inr (Resolved (JArray [JString ''like_post'', JObject timeline_args]))
   \<and> fst (invoke ''like_post'' (Some 0)
            (remove_bridge (snd (invoke ''like_post'' (Some 0) tauri_world))))
       = Inr (Resolved (JBool True))"
proof -
  let ?c = "''like_post''"
  let ?echoed = "Inr (Resolved (JArray [JString ?c, JObject timeline_args])) :: call_result"
  have m: "mock_mode echo_dev_world"
    by (rule echo_dev_world_mock_mode)
  have t: "binding_value tauri_world = Some (Bridge echo_bridge)"
    by (rule tauri_binding)
  have ne: "?c \<noteq> ''fail''"
    by simp
  note up = detection_evaluated_per_call [of echo_dev_world ?c "Some 0" echo_bridge ?c "Some 0"]
  note down = detection_evaluated_per_call [of tauri_world ?c "Some 0" echo_bridge ?c "Some 0"]
  note up_mock = up [THEN conjunct1, THEN mp, OF m]
  note down_live = down [THEN conjunct2, THEN conjunct1, THEN mp, OF t]
  from up_mock have first_mock:
    "invoke ?c (Some 0) echo_dev_world = mockInvoke ?c (Some 0) echo_dev_world"
    by (rule conjunct1)
  from up_mock [THEN conjunct2] have second_live:
    "invoke ?c (Some 0) (install_bridge echo_bridge (snd (invoke ?c (Some 0) echo_dev_world)))
     = call_invoke (Bridge echo_bridge) ?c (Some 0)
         (install_bridge echo_bridge (snd (invoke ?c (Some 0) echo_dev_world)))"
    by (simp only: Let_def)
  from down_live have first_live:
    "invoke ?c (Some 0) tauri_world = call_invoke (Bridge echo_bridge) ?c (Some 0) tauri_world"
    by (rule conjunct1)
  from down_live [THEN conjunct2] have second_mock:
    "invoke ?c (Some 0) (remove_bridge (snd (invoke ?c (Some 0) tauri_world)))
     = mockInvoke ?c (Some 0) (remove_bridge (snd (invoke ?c (Some 0) tauri_world)))"
    by (simp only: Let_def)
  have r1: "fst (invoke ?c (Some 0) echo_dev_world) = Inr (Resolved (JBool True))"
    by (simp only: first_mock mockInvoke_result_like_post)
  have "heap (install_bridge echo_bridge (snd (invoke ?c (Some 0) echo_dev_world)))
        = heap echo_dev_world"
    by (simp only: first_mock heap_install_bridge heap_mockInvoke)
  then have "heap (install_bridge echo_bridge (snd (invoke ?c (Some 0) echo_dev_world))) 0
        = Some timeline_args"
    by (simp add: echo_dev_world_def dev_world_def)
  then have r2:
    "fst (invoke ?c (Some 0)
       (install_bridge echo_bridge (snd (invoke ?c (Some 0) echo_dev_world)))) = ?echoed"
    by (simp only: second_live fst_call_invoke_bridge echo_bridge_result [OF _ ne])
  have "heap tauri_world 0 = Some timeline_args"
    by (simp add: tauri_world_def)
  then have r3: "fst (invoke ?c (Some 0) tauri_world) = ?echoed"
    by (simp only: first_live fst_call_invoke_bridge echo_bridge_result [OF _ ne])
  have r4: "fst (invoke ?c (Some 0) (remove_bridge (snd (invoke ?c (Some 0) tauri_world))))
            = Inr (Resolved (JBool True))"
    by (simp only: second_mock mockInvoke_result_like_post)
  from m r1 r2 t r3 r4 show ?thesis
    by (intro conjI)
qed

subsection \<open>C6: the mock post detail\<close>

text \<open>
  C6. The claim asks that \<open>get_post_detail\<close> resolves in mock mode to a Post record. The
  code does not do so. With the argument record that \<^verbatim>\<open>PostDetail.tsx\<close> passes, in a
  browser tab without the host runtime, the call resolves to the empty object, which has
  none of the required keys of \<^verbatim>\<open>PostData\<close> and is no Post, neither by the interface of
  the source nor by the data model of the specification.
\<close>

theorem mock_post_detail_not_PostData:
  "mock_mode (dev_world ())
   \<and> heap (dev_world ()) 2 = Some post_detail_args
   \<and> fst (invoke ''get_post_detail'' (Some 2) (dev_world ())) = Inr (Resolved (JObject []))
   \<and> \<not> is_PostData (JObject [])
   \<and> \<not> Post_shape_spec (JObject [])"
proof -
  have m: "mock_mode (dev_world ())"
    by (rule dev_world_mock_mode)
  have h: "heap (dev_world ()) 2 = Some post_detail_args"
    by (simp add: dev_world_def)
  have r: "fst (invoke ''get_post_detail'' (Some 2) (dev_world ())) = Inr (Resolved (JObject []))"
    by (simp only: invoke_mock_mode [OF m] mockInvoke_result_get_post_detail)
  have n: "\<not> is_PostData (JObject [])"
    by (simp add: has_string_def)
  then have n': "\<not> Post_shape_spec (JObject [])"
    by simp
  from m h r n n' show ?thesis
    by (intro conjI)
qed

subsection \<open>C7: the Mock Responder keeps no state\<close>

text \<open>
  C7. Two calls in mock mode with the same command name and argument reference have the
  same outcome, the same resolved value or the same rejection, in any two mock-mode worlds,
  whatever their consoles, heaps and host states hold. In particular the outcome is the
  same after any list of other calls, also when that list comes between the two calls.
\<close>

theorem mock_stateless:
  fixes w w' :: "'h world"
  shows "(mock_mode w \<and> mock_mode w' \<longrightarrow>
            fst (invoke command args w) = fst (invoke command args w'))
       \<and> (mock_mode w \<longrightarrow>
            fst (invoke command args (run_calls calls w)) = fst (invoke command args w)
            \<and> fst (invoke command args (run_calls calls (snd (invoke command args w))))
                = fst (invoke command args w))"
proof -
  have key: "fst (invoke command args v) = fst (invoke command args v')"
    if "mock_mode v" "mock_mode v'" for v v' :: "'h world"
    using that mockInvoke_result_indep [of command args v args v']
    by (simp only: invoke_mock_mode)
  have after: "fst (invoke command args (run_calls calls w)) = fst (invoke command args w)"
    if "mock_mode w"
    by (rule key) (simp_all only: mock_mode_run_calls that)
  have between: "fst (invoke command args (run_calls calls (snd (invoke command args w))))
        = fst (invoke command args w)"
    if "mock_mode w"
    by (rule key) (simp_all only: mock_mode_run_calls mock_mode_invoke that)
  show ?thesis
  proof (intro conjI impI)
    assume "mock_mode w \<and> mock_mode w'"
    then show "fst (invoke command args w) = fst (invoke command args w')"
      by (elim conjE) (rule key)
  next
    assume "mock_mode w"
    then show "fst (invoke command args (run_calls calls w)) = fst (invoke command args w)"
      by (rule after)
  next
    assume "mock_mode w"
    then show "fst (invoke command args (run_calls calls (snd (invoke command args w))))
        = fst (invoke command args w)"
      by (rule between)
  qed
qed

theorem mock_stateless_witness:
  "mock_mode (dev_world ()) \<and> mock_mode (headless_world ())
   \<and> fst (invoke ''create_post'' (Some 0) (dev_world ()))
       = fst (invoke ''create_post'' (Some 0) (headless_world ()))
   \<and> fst (invoke ''create_post'' (Some 0)
            (run_calls [(''like_post'', None), (''export_data'', Some 1)] (dev_world ())))
       = Inr (Resolved (JString ''mock-post-uri''))"
proof -
  have d: "mock_mode (dev_world ())"
    by (rule dev_world_mock_mode)
  have h: "mock_mode (headless_world ())"
    by (rule headless_world_mock_mode)
  note st = mock_stateless [of "dev_world ()" "headless_world ()" "''create_post''" "Some 0"
        "[(''like_post'', None), (''export_data'', Some 1)]"]
  from st [THEN conjunct1, THEN mp, OF conjI, OF d h]
  have a: "fst (invoke ''create_post'' (Some 0) (dev_world ()))
       = fst (invoke ''create_post'' (Some 0) (headless_world ()))" .
  from st [THEN conjunct2, THEN mp, OF d, THEN conjunct1]
  have "fst (invoke ''create_post'' (Some 0)
            (run_calls [(''like_post'', None), (''export_data'', Some 1)] (dev_world ())))
       = fst (invoke ''create_post'' (Some 0) (dev_world ()))" .
  also have "\<dots> = Inr (Resolved (JString ''mock-post-uri''))"
    by (simp only: invoke_mock_mode [OF d] mockInvoke_result_create_post)
  finally have b: "fst (invoke ''create_post'' (Some 0)
            (run_calls [(''like_post'', None), (''export_data'', Some 1)] (dev_world ())))
       = Inr (Resolved (JString ''mock-post-uri''))" .
  from d h a b show ?thesis
    by (intro conjI)
qed

subsection \<open>C8: the mock login does not look at the credentials\<close>

text \<open>
  C8. For any two mock-mode worlds and any two argument references (with any service URL,
  identifier and password behind them, or no argument at all), \<open>login\<close> resolves to the
  same value in both runs: the string \<open>mock-session-data\<close>.
\<close>

theorem mock_login_ignores_credentials:
  assumes "mock_mode w1" and "mock_mode w2"
  shows "fst (invoke ''login'' args1 w1) = fst (invoke ''login'' args2 w2)
       \<and> fst (invoke ''login'' args1 w1) = Inr (Resolved (JString ''mock-session-data''))"
  using assms by (simp add: invoke_mock_mode mockInvoke_result_login)

theorem mock_login_ignores_credentials_witness:
  "mock_mode (dev_world ()) \<and> mock_mode (headless_world ())
   \<and> heap (dev_world ()) 1 = Some login_args_alice
   \<and> heap (headless_world ()) 1 = Some login_args_bob
   \<and> login_args_alice \<noteq> login_args_bob
   \<and> fst (invoke ''login'' (Some 1) (dev_world ()))
       = fst (invoke ''login'' (Some 1) (headless_world ()))
   \<and> fst (invoke ''login'' (Some 1) (dev_world ())) = fst (invoke ''login'' None (dev_world ()))"
proof -
  have d: "mock_mode (dev_world ())"
    by (rule dev_world_mock_mode)
  have h: "mock_mode (headless_world ())"
    by (rule headless_world_mock_mode)
  have r: "heap (dev_world ()) 1 = Some login_args_alice
           \<and> heap (headless_world ()) 1 = Some login_args_bob
           \<and> login_args_alice \<noteq> login_args_bob"
    by (simp add: dev_world_def headless_world_def login_args_alice_def login_args_bob_def)
  show ?thesis
    using d h r mock_login_ignores_credentials [OF d h, of "Some 1" "Some 1"]
      mock_login_ignores_credentials [OF d d, of "Some 1" None]
    by simp
qed

subsection \<open>C9: the argument record and the dispatch\<close>

text \<open>
  C9, as stated, fails on the live path: the bridge is handed the caller's reference, and a
  bridge that writes to the record behind it leaves the record changed after the call. Here
  the record of the timeline fetch has gained the key \<open>seen\<close>.
\<close>

theorem writing_bridge_counterexample:
  "binding_value writing_world = Some (Bridge writing_bridge)
   \<and> heap writing_world 0 = Some timeline_args
   \<and> heap (snd (invoke ''get_timeline'' (Some 0) writing_world)) 0
       = Some ((''seen'', JBool True) # timeline_args)
   \<and> heap (snd (invoke ''get_timeline'' (Some 0) writing_world)) 0 \<noteq> heap writing_world 0"
  by (simp add: writing_binding invoke_bridge)
     (simp add: writing_world_def writing_bridge_def)

text \<open>
  C9, amended. The dispatch itself writes nothing to the heap of argument records. Where the
  binding does not hold a bridge object (it is absent, or holds any plain value) the heap
  after the call is the heap before it, so the record behind the reference has the keys and
  values the caller supplied. Where the binding holds a bridge object, the bridge is handed
  the caller's reference and the caller's heap as they are, and the heap after the call is
  the heap the bridge returned: the record can differ afterwards only by what the bridge
  wrote. In mock mode the Mock Responder is handed the same reference, which is the one its
  warning shows.
\<close>

theorem invoke_adds_no_write:
  "(case binding_value w of
      Some (Bridge b) \<Rightarrow>
        invoke command args w =
          (case b command args (heap w, host w) of
             (r, hp, hs) \<Rightarrow> (r, w\<lparr>heap := hp, host := hs\<rparr>))
        \<and> heap (snd (invoke command args w)) = fst (snd (b command args (heap w, host w)))
    | _ \<Rightarrow> heap (snd (invoke command args w)) = heap w)
   \<and> (mock_mode w \<longrightarrow>
        last (console (snd (invoke command args w)))
          = (''Mock invoke called for command: '' @ command, args))"
proof (cases "binding_value w")
  case None
  then have "mock_mode w"
    by (simp add: mock_mode_def)
  with None show ?thesis
    by (simp add: invoke_mock_mode heap_mockInvoke console_mockInvoke)
next
  case (Some v)
  then have not_mock: "\<not> mock_mode w"
    by (simp add: mock_mode_def)
  show ?thesis
  proof (cases v)
    case (Plain x)
    with Some not_mock show ?thesis
      by (simp add: invoke_plain heap_mockInvoke)
  next
    case (Bridge b)
    with Some not_mock show ?thesis
      by (simp add: invoke_bridge split: prod.splits)
  qed
qed

theorem invoke_adds_no_write_witness:
  "mock_mode echo_dev_world
   \<and> heap (snd (invoke ''get_timeline'' (Some 0) echo_dev_world)) 0 = Some timeline_args
   \<and> last (console (snd (invoke ''get_timeline'' (Some 0) echo_dev_world)))
       = (''Mock invoke called for command: get_timeline'', Some 0)
   \<and> binding_value tauri_world = Some (Bridge echo_bridge)
   \<and> fst (invoke ''get_timeline'' (Some 0) tauri_world)
       = Inr (Resolved (JArray [JString ''get_timeline'', JObject timeline_args]))
   \<and> heap (snd (invoke ''get_timeline'' (Some 0) tauri_world)) 0 = Some timeline_args"
proof -
  let ?c = "''get_timeline''"
  have d: "mock_mode echo_dev_world"
    by (rule echo_dev_world_mock_mode)
  have t: "binding_value tauri_world = Some (Bridge echo_bridge)"
    by (rule tauri_binding)
  have ne: "?c \<noteq> ''fail''"
    by simp
  note mock = invoke_adds_no_write
    [where w = echo_dev_world and command = ?c and args = "Some 0"]
  note live = invoke_adds_no_write
    [where w = tauri_world and command = ?c and args = "Some 0"]
  from mock [THEN conjunct1]
  have "heap (snd (invoke ?c (Some 0) echo_dev_world)) = heap echo_dev_world"
    by (simp only: mock_mode_binding [OF d] option.case)
  then have r1: "heap (snd (invoke ?c (Some 0) echo_dev_world)) 0 = Some timeline_args"
    by (simp add: echo_dev_world_def dev_world_def)
  from mock [THEN conjunct2, THEN mp, OF d]
  have "last (console (snd (invoke ?c (Some 0) echo_dev_world)))
       = (''Mock invoke called for command: '' @ ?c, Some 0)" .
  then have r2: "last (console (snd (invoke ?c (Some 0) echo_dev_world)))
       = (''Mock invoke called for command: get_timeline'', Some 0)"
    by simp
  note live_part = live [THEN conjunct1, unfolded t option.case ipc_binding.case]
  have h0: "heap tauri_world 0 = Some timeline_args"
    by (simp add: tauri_world_def)
  have "fst (invoke ?c (Some 0) tauri_world)
        = fst (echo_bridge ?c (Some 0) (heap tauri_world, host tauri_world))"
    by (simp only: live_part [THEN conjunct1] split: prod.splits) simp
  with h0 have r3: "fst (invoke ?c (Some 0) tauri_world)
       = Inr (Resolved (JArray [JString ?c, JObject timeline_args]))"
    by (simp only: echo_bridge_result [OF _ ne])
  from live_part [THEN conjunct2]
  have "heap (snd (invoke ?c (Some 0) tauri_world)) = heap tauri_world"
    by (simp only: echo_bridge_state fst_conv)
  then have r4: "heap (snd (invoke ?c (Some 0) tauri_world)) 0 = Some timeline_args"
    by (simp only: h0)
  from d r1 r2 t r3 r4 show ?thesis
    by (intro conjI)
qed

subsection \<open>C10: the empty command name\<close>

text \<open>
  C10. The empty string is not a recognised command name. In mock mode a call with it
  rejects, with an error of the same form as for every other unrecognised name: the message
  \<open>Unimplemented mock for: \<close> followed by the name, here by nothing. Apart from the
  warning line on the console the world is left as it was.
\<close>

theorem mock_empty_command_rejected:
  assumes "mock_mode w"
  shows "[] \<notin> set mock_commands
       \<and> rejects (fst (invoke [] args w))
       \<and> rejection_message (fst (invoke [] args w)) = Some (''Unimplemented mock for: '' @ [])
       \<and> (command \<notin> set mock_commands \<longrightarrow>
            rejection_message (fst (invoke command args w))
              = Some (''Unimplemented mock for: '' @ command))
       \<and> snd (invoke [] args w) = console_warn ''Mock invoke called for command: '' args w"
proof -
  have e: "[] \<notin> set mock_commands"
    by (simp add: mock_commands_def)
  show ?thesis
    using assms e mockInvoke_result_other [OF e, of args w] mockInvoke_world [of "[]" args w]
    by (simp add: invoke_mock_mode mockInvoke_result_other)
qed

theorem mock_empty_command_rejected_witness:
  "mock_mode (dev_world ())
   \<and> fst (invoke [] (Some 0) (dev_world ())) = Inr (Rejected (JError ''Unimplemented mock for: ''))
   \<and> console (snd (invoke [] (Some 0) (dev_world ())))
       = [(''Mock invoke called for command: '', Some 0)]"
proof -
  have d: "mock_mode (dev_world ())"
    by (rule dev_world_mock_mode)
  have c: "console (dev_world ()) = []"
    by (simp add: dev_world_def)
  have e: "[] \<notin> set mock_commands"
    by (simp add: mock_commands_def)
  show ?thesis
    using d c mock_empty_command_rejected [OF d, of "Some 0" "[]"]
      mockInvoke_result_other [OF e, of "Some 0" "dev_world ()"]
    by (simp add: console_warn_def invoke_mock_mode)
qed

end
